theory Spec2Isabelle
  imports Complex_Main
begin

section \<open>Numbers, exceptions and the data model\<close>

text \<open>
  The program computes with Python floats. They are modelled by real numbers: every
  arithmetic operation is exact, so rounding and overflow are outside the model. What the
  model keeps of Python's arithmetic is its partiality:
  \<^item> \<^verbatim>\<open>x / y\<close> and \<^verbatim>\<open>x ** n\<close> (zero base, negative exponent) raise
    \<^verbatim>\<open>ZeroDivisionError\<close>;
  \<^item> \<^verbatim>\<open>max\<close> and \<^verbatim>\<open>min\<close> of an empty sequence raise \<^verbatim>\<open>ValueError\<close>;
  \<^item> \<^verbatim>\<open>xs[i]\<close> out of range raises \<^verbatim>\<open>IndexError\<close>;
  \<^item> \<^verbatim>\<open>np.log\<close> of a negative number raises nothing and returns \<^verbatim>\<open>nan\<close>, which
    every later arithmetic operation hands on and \<^verbatim>\<open>np.isfinite\<close> detects.
  A function that can raise returns \<open>py_error + 'a\<close>, with \<open>Inl\<close> for the exception.
\<close>

datatype pyfloat = Finite real | NaN

datatype py_error =
    ZeroDivisionError
  | ValueError
  | IndexError
  | RuntimeError_no_sign_change real pyfloat real pyfloat
  | RuntimeError_not_converged

fun isfinite :: "pyfloat \<Rightarrow> bool" where
  "isfinite (Finite x) = True"
| "isfinite NaN = False"

fun fadd :: "pyfloat \<Rightarrow> pyfloat \<Rightarrow> pyfloat" where
  "fadd (Finite x) (Finite y) = Finite (x + y)"
| "fadd x y = NaN"

fun fsub :: "pyfloat \<Rightarrow> pyfloat \<Rightarrow> pyfloat" where
  "fsub (Finite x) (Finite y) = Finite (x - y)"
| "fsub x y = NaN"

fun fmul :: "pyfloat \<Rightarrow> pyfloat \<Rightarrow> pyfloat" where
  "fmul (Finite x) (Finite y) = Finite (x * y)"
| "fmul x y = NaN"

fun fexp :: "pyfloat \<Rightarrow> pyfloat" where
  "fexp (Finite x) = Finite (exp x)"
| "fexp NaN = NaN"

text \<open>A comparison with \<^verbatim>\<open>nan\<close> is false.\<close>

fun fgt :: "pyfloat \<Rightarrow> real \<Rightarrow> bool" where
  "fgt (Finite x) y = (x > y)"
| "fgt NaN y = False"

definition py_div :: "real \<Rightarrow> real \<Rightarrow> py_error + real" where
  "py_div x y = (if y = 0 then Inl ZeroDivisionError else Inr (x / y))"

text \<open>\<^verbatim>\<open>x ** n\<close> for a float \<open>x\<close> and an integer \<open>n\<close>.\<close>

definition py_pow :: "real \<Rightarrow> int \<Rightarrow> py_error + real" where
  "py_pow x n = (if x = 0 \<and> n < 0 then Inl ZeroDivisionError else Inr (power_int x n))"

definition py_index :: "'a list \<Rightarrow> nat \<Rightarrow> py_error + 'a" where
  "py_index xs i = (if i < length xs then Inr (xs ! i) else Inl IndexError)"

text \<open>
  The built-ins \<^verbatim>\<open>max\<close> and \<^verbatim>\<open>min\<close> over an iterable: the first item starts the
  running value, a later item replaces it when it is strictly larger (smaller).
\<close>

fun py_max :: "real list \<Rightarrow> py_error + real" where
  "py_max [] = Inl ValueError"
| "py_max (x # xs) = Inr (foldl (\<lambda>m y. if y > m then y else m) x xs)"

fun py_min :: "real list \<Rightarrow> py_error + real" where
  "py_min [] = Inl ValueError"
| "py_min (x # xs) = Inr (foldl (\<lambda>m y. if y < m then y else m) x xs)"

text \<open>
  \<^verbatim>\<open>Component\<close> (pyreactor/component.py): \<^verbatim>\<open>order\<close> is documented as an \<^verbatim>\<open>int\<close>,
  \<^verbatim>\<open>cp_coeffs\<close> is unpacked into exactly five coefficients \<^verbatim>\<open>A, B, C, D, E\<close>.
\<close>

record component =
  name :: string
  order :: int
  cp_coeffs :: "real \<times> real \<times> real \<times> real \<times> real"

text \<open>\<^verbatim>\<open>Reaction\<close> (pyreactor/reaction.py).\<close>

record reaction =
  reactants :: "component list"
  products :: "component list"
  rxn_std_dh :: real
  rxn_std_ds :: real
  eos :: string
  reac_temp :: real

section \<open>The search bracket of \<^verbatim>\<open>calculate_conversion\<close>\<close>

text \<open>
  The generator \<^verbatim>\<open>n0 / comp.order for comp, n0 in zip(comps, init)\<close>: \<^verbatim>\<open>zip\<close> stops at
  the shorter sequence, and the division raises at the first component of order zero.
\<close>

fun ratios :: "(component \<times> real) list \<Rightarrow> py_error + real list" where
  "ratios [] = Inr []"
| "ratios ((c, n0) # rest) =
     (case py_div n0 (of_int (order c)) of
        Inl e \<Rightarrow> Inl e
      | Inr q \<Rightarrow> (case ratios rest of Inl e \<Rightarrow> Inl e | Inr qs \<Rightarrow> Inr (q # qs)))"

definition epsilon :: real where
  "epsilon = 1 / 100000"

text \<open>Lines 133 to 135 of pyreactor/reaction.py: \<^verbatim>\<open>chi_min\<close> first, then \<^verbatim>\<open>chi_max\<close>.\<close>

definition bracket :: "reaction \<Rightarrow> real list \<Rightarrow> real list \<Rightarrow> py_error + (real \<times> real)" where
  "bracket r reac_init prod_init =
     (case ratios (zip (products r) prod_init) of
        Inl e \<Rightarrow> Inl e
      | Inr ps \<Rightarrow>
     (case py_max ps of
        Inl e \<Rightarrow> Inl e
      | Inr hi \<Rightarrow>
     (case ratios (zip (reactants r) reac_init) of
        Inl e \<Rightarrow> Inl e
      | Inr rs \<Rightarrow>
     (case py_min rs of
        Inl e \<Rightarrow> Inl e
      | Inr lo \<Rightarrow> Inr (- hi + epsilon, lo - epsilon)))))"

text \<open>Lines 72 to 74 of the top-level reaction.py, the older copy of the same method.\<close>

definition legacy_bracket :: "reaction \<Rightarrow> real list \<Rightarrow> real list \<Rightarrow> py_error + (real \<times> real)" where
  "legacy_bracket r reac_init prod_init =
     (case ratios (zip (products r) prod_init) of
        Inl e \<Rightarrow> Inl e
      | Inr ps \<Rightarrow>
     (case py_max ps of
        Inl e \<Rightarrow> Inl e
      | Inr hi \<Rightarrow>
     (case ratios (zip (reactants r) reac_init) of
        Inl e \<Rightarrow> Inl e
      | Inr rs \<Rightarrow>
     (case py_min rs of
        Inl e \<Rightarrow> Inl e
      | Inr lo \<Rightarrow> Inr (- hi - epsilon, lo + epsilon)))))"

section \<open>Heat-capacity integrals of a species\<close>

text \<open>
  \<^verbatim>\<open>enthalpy_change\<close> and \<^verbatim>\<open>entropy_change\<close> (pyreactor/component.py) evaluate one
  expression at \<^verbatim>\<open>t_1\<close> and at \<^verbatim>\<open>t_2\<close> and return the difference. The expression is
  written once here; it raises where it divides by the scaled temperature.
\<close>

fun enthalpy_term :: "real \<times> real \<times> real \<times> real \<times> real \<Rightarrow> real \<Rightarrow> py_error + real" where
  "enthalpy_term (A, B, C, D, E) t =
     (case py_div E t of
        Inl e \<Rightarrow> Inl e
      | Inr q \<Rightarrow> Inr ((A * t) + (B * t ^ 2 / 2) + (C * t ^ 3 / 3) + (D * t ^ 4 / 4) - q))"

definition enthalpy_change :: "component \<Rightarrow> real \<Rightarrow> real \<Rightarrow> py_error + real" where
  "enthalpy_change c initial_temp final_temp =
     (let t_1 = initial_temp / 1000; t_2 = final_temp / 1000 in
      case enthalpy_term (cp_coeffs c) t_1 of
        Inl e \<Rightarrow> Inl e
      | Inr term_1 \<Rightarrow>
          (case enthalpy_term (cp_coeffs c) t_2 of
             Inl e \<Rightarrow> Inl e
           | Inr term_2 \<Rightarrow> Inr (term_2 - term_1)))"

text \<open>
  \<^verbatim>\<open>np.log(t)\<close> is not a finite number for \<open>t \<le> 0\<close>: \<^verbatim>\<open>nan\<close> below zero, \<^verbatim>\<open>-inf\<close> at
  zero. At zero the value is never used: the division in the same expression raises.
\<close>

definition np_log :: "real \<Rightarrow> pyfloat" where
  "np_log t = (if t \<le> 0 then NaN else Finite (ln t))"

fun entropy_term :: "real \<times> real \<times> real \<times> real \<times> real \<Rightarrow> real \<Rightarrow> py_error + pyfloat" where
  "entropy_term (A, B, C, D, E) t =
     (case py_div E (2 * t ^ 2) of
        Inl e \<Rightarrow> Inl e
      | Inr q \<Rightarrow>
          Inr (fsub (fadd (fmul (Finite A) (np_log t))
                          (Finite ((B * t) + (C * t ^ 2 / 2) + (D * t ^ 3 / 3))))
                    (Finite q)))"

definition entropy_change :: "component \<Rightarrow> real \<Rightarrow> real \<Rightarrow> py_error + pyfloat" where
  "entropy_change c initial_temp final_temp =
     (let t_1 = initial_temp / 1000; t_2 = final_temp / 1000 in
      case entropy_term (cp_coeffs c) t_1 of
        Inl e \<Rightarrow> Inl e
      | Inr term_1 \<Rightarrow>
          (case entropy_term (cp_coeffs c) t_2 of
             Inl e \<Rightarrow> Inl e
           | Inr term_2 \<Rightarrow> Inr (fsub term_2 term_1)))"

section \<open>Gibbs free energy and equilibrium constant\<close>

text \<open>
  One loop of \<^verbatim>\<open>calculate_rxn_gibbs\<close>. The loop over the reactants integrates from
  \<^verbatim>\<open>reac_temp\<close> to \<^verbatim>\<open>std_temp\<close>, the loop over the products from \<^verbatim>\<open>std_temp\<close> to
  \<^verbatim>\<open>reac_temp\<close>; the running values are \<^verbatim>\<open>(rxn_enthalpy, rxn_entropy)\<close>.
\<close>

fun hess_loop ::
  "real \<Rightarrow> real \<Rightarrow> component list \<Rightarrow> real \<times> pyfloat \<Rightarrow> py_error + (real \<times> pyfloat)" where
  "hess_loop initial_temp final_temp [] acc = Inr acc"
| "hess_loop initial_temp final_temp (c # rest) (rxn_enthalpy, rxn_entropy) =
     (case enthalpy_change c initial_temp final_temp of
        Inl e \<Rightarrow> Inl e
      | Inr dh \<Rightarrow>
          (case entropy_change c initial_temp final_temp of
             Inl e \<Rightarrow> Inl e
           | Inr ds \<Rightarrow>
               hess_loop initial_temp final_temp rest
                 (rxn_enthalpy + dh * of_int (order c),
                  fadd rxn_entropy (fmul ds (Finite (of_int (order c)))))))"

definition calculate_rxn_gibbs :: "reaction \<Rightarrow> real \<Rightarrow> py_error + pyfloat" where
  "calculate_rxn_gibbs r std_temp =
     (case hess_loop (reac_temp r) std_temp (reactants r) (0, Finite 0) of
        Inl e \<Rightarrow> Inl e
      | Inr acc \<Rightarrow>
          (case hess_loop std_temp (reac_temp r) (products r) acc of
             Inl e \<Rightarrow> Inl e
           | Inr (rxn_enthalpy, rxn_entropy) \<Rightarrow>
               Inr (fsub (Finite (rxn_enthalpy + rxn_std_dh r))
                         (fmul (Finite (reac_temp r))
                               (fadd rxn_entropy (Finite (rxn_std_ds r)))))))"

text \<open>
  \<^verbatim>\<open>calculate_rxn_k\<close>. The module \<^verbatim>\<open>constants\<close> that supplies the gas constant \<^verbatim>\<open>R\<close> and
  the default reference temperature \<^verbatim>\<open>STD_TEMP\<close> is not among the sources, so both are
  parameters. The quotient \<^verbatim>\<open>-rxn_gibbs / (R * self.reac_temp)\<close> is a float division.
\<close>

fun gibbs_over_rt :: "pyfloat \<Rightarrow> real \<Rightarrow> py_error + pyfloat" where
  "gibbs_over_rt g d =
     (if d = 0 then Inl ZeroDivisionError
      else Inr (case g of Finite x \<Rightarrow> Finite (- x / d) | NaN \<Rightarrow> NaN))"

definition calculate_rxn_k :: "real \<Rightarrow> real \<Rightarrow> reaction \<Rightarrow> py_error + pyfloat" where
  "calculate_rxn_k R STD_TEMP r =
     (case calculate_rxn_gibbs r STD_TEMP of
        Inl e \<Rightarrow> Inl e
      | Inr rxn_gibbs \<Rightarrow>
          (case gibbs_over_rt rxn_gibbs (R * reac_temp r) of
             Inl e \<Rightarrow> Inl e
           | Inr x \<Rightarrow> Inr (fexp x)))"

section \<open>The reaction quotient\<close>

text \<open>
  The two loops of \<^verbatim>\<open>reaction_equation\<close>. Each walks the species list with the index that
  \<^verbatim>\<open>enumerate\<close> supplies and updates three running values:
  \<^verbatim>\<open>(numerator, equil_prod, delta_mols)\<close> over the products,
  \<^verbatim>\<open>(denominator, equil_reac, delta_mols)\<close> over the reactants.
\<close>

fun products_loop ::
  "real \<Rightarrow> real list \<Rightarrow> nat \<Rightarrow> component list \<Rightarrow> real \<times> real \<times> int
    \<Rightarrow> py_error + (real \<times> real \<times> int)" where
  "products_loop chi prod_init index [] acc = Inr acc"
| "products_loop chi prod_init index (c # rest) (numerator, equil_prod, delta_mols) =
     (case py_index prod_init index of
        Inl e \<Rightarrow> Inl e
      | Inr n0 \<Rightarrow>
          (let prod_term = n0 + of_int (order c) * chi in
           case py_pow prod_term (order c) of
             Inl e \<Rightarrow> Inl e
           | Inr pw \<Rightarrow>
               products_loop chi prod_init (Suc index) rest
                 (numerator * pw, equil_prod + prod_term, delta_mols + order c)))"

fun reactants_loop ::
  "real \<Rightarrow> real list \<Rightarrow> nat \<Rightarrow> component list \<Rightarrow> real \<times> real \<times> int
    \<Rightarrow> py_error + (real \<times> real \<times> int)" where
  "reactants_loop chi reac_init index [] acc = Inr acc"
| "reactants_loop chi reac_init index (c # rest) (denominator, equil_reac, delta_mols) =
     (case py_index reac_init index of
        Inl e \<Rightarrow> Inl e
      | Inr n0 \<Rightarrow>
          (let reac_term = n0 - of_int (order c) * chi in
           case py_pow reac_term (order c) of
             Inl e \<Rightarrow> Inl e
           | Inr pw \<Rightarrow>
               reactants_loop chi reac_init (Suc index) rest
                 (denominator * pw, equil_reac + reac_term, delta_mols - order c)))"

definition reaction_equation ::
  "reaction \<Rightarrow> real \<Rightarrow> real \<Rightarrow> real list \<Rightarrow> real list \<Rightarrow> py_error + real" where
  "reaction_equation r chi pressure reac_init prod_init =
     (case products_loop chi prod_init 0 (products r) (1, 0, 0) of
        Inl e \<Rightarrow> Inl e
      | Inr (numerator, equil_prod, dm) \<Rightarrow>
     (case reactants_loop chi reac_init 0 (reactants r) (1, 0, dm) of
        Inl e \<Rightarrow> Inl e
      | Inr (denominator, equil_reac, delta_mols) \<Rightarrow>
     (case py_pow (equil_prod + equil_reac) (- delta_mols) of
        Inl e \<Rightarrow> Inl e
      | Inr total_mol_term \<Rightarrow>
     (case py_pow pressure delta_mols of
        Inl e \<Rightarrow> Inl e
      | Inr pressure_term \<Rightarrow>
     (case py_div numerator denominator of
        Inl e \<Rightarrow> Inl e
      | Inr q \<Rightarrow> Inr (q * total_mol_term * pressure_term))))))"

text \<open>
  The quotient as the specification writes it: products over the species of each side,
  the net mole change and the total moles, all at the extent \<open>chi\<close>.
\<close>

definition current_prod :: "reaction \<Rightarrow> real \<Rightarrow> real list \<Rightarrow> nat \<Rightarrow> real" where
  "current_prod r chi prod_init i = prod_init ! i + of_int (order (products r ! i)) * chi"

definition current_reac :: "reaction \<Rightarrow> real \<Rightarrow> real list \<Rightarrow> nat \<Rightarrow> real" where
  "current_reac r chi reac_init j = reac_init ! j - of_int (order (reactants r ! j)) * chi"

definition spec_numerator :: "reaction \<Rightarrow> real \<Rightarrow> real list \<Rightarrow> real" where
  "spec_numerator r chi prod_init =
     (\<Prod>i < length (products r). power_int (current_prod r chi prod_init i) (order (products r ! i)))"

definition spec_denominator :: "reaction \<Rightarrow> real \<Rightarrow> real list \<Rightarrow> real" where
  "spec_denominator r chi reac_init =
     (\<Prod>j < length (reactants r). power_int (current_reac r chi reac_init j) (order (reactants r ! j)))"

definition net_mole_change :: "reaction \<Rightarrow> int" where
  "net_mole_change r =
     (\<Sum>i < length (products r). order (products r ! i))
       - (\<Sum>j < length (reactants r). order (reactants r ! j))"

definition total_moles :: "reaction \<Rightarrow> real \<Rightarrow> real list \<Rightarrow> real list \<Rightarrow> real" where
  "total_moles r chi reac_init prod_init =
     (\<Sum>i < length (products r). current_prod r chi prod_init i)
       + (\<Sum>j < length (reactants r). current_reac r chi reac_init j)"

definition spec_quotient :: "reaction \<Rightarrow> real \<Rightarrow> real \<Rightarrow> real list \<Rightarrow> real list \<Rightarrow> real" where
  "spec_quotient r chi pressure reac_init prod_init =
     (spec_numerator r chi prod_init / spec_denominator r chi reac_init)
       * power_int (total_moles r chi reac_init prod_init) (- net_mole_change r)
       * power_int pressure (net_mole_change r)"

text \<open>
  Where Python's arithmetic raises while evaluating that expression: a zero base under
  a negative exponent, or a zero denominator.
\<close>

definition zero_division :: "reaction \<Rightarrow> real \<Rightarrow> real \<Rightarrow> real list \<Rightarrow> real list \<Rightarrow> bool" where
  "zero_division r chi pressure reac_init prod_init =
     ((\<exists>i < length (products r). current_prod r chi prod_init i = 0 \<and> order (products r ! i) < 0)
      \<or> (\<exists>j < length (reactants r). current_reac r chi reac_init j = 0 \<and> order (reactants r ! j) < 0)
      \<or> (total_moles r chi reac_init prod_init = 0 \<and> 0 < net_mole_change r)
      \<or> (pressure = 0 \<and> net_mole_change r < 0)
      \<or> spec_denominator r chi reac_init = 0)"

section \<open>The conversion solver\<close>

text \<open>
  The inner function \<^verbatim>\<open>residual\<close>: the body of the \<^verbatim>\<open>try\<close> is the inner \<open>case\<close>, the
  \<^verbatim>\<open>except Exception\<close> clause is the outer one. \<^verbatim>\<open>k_eq\<close> comes from
  \<^verbatim>\<open>calculate_rxn_k\<close>, so it can be \<^verbatim>\<open>nan\<close>.
\<close>

definition residual ::
  "reaction \<Rightarrow> real \<Rightarrow> real list \<Rightarrow> real list \<Rightarrow> pyfloat \<Rightarrow> real \<Rightarrow> py_error + pyfloat" where
  "residual r pressure reac_init prod_init k_eq chi =
     (case
        (case reaction_equation r chi pressure reac_init prod_init of
           Inl e \<Rightarrow> Inl e
         | Inr q \<Rightarrow>
             (let val = fsub (Finite q) k_eq in
              if \<not> isfinite val then Inr (Finite 10000000000) else Inr val))
      of
        Inl e \<Rightarrow> Inr (Finite 10000000000)
      | Inr v \<Rightarrow> Inr v)"

text \<open>
  \<^verbatim>\<open>scipy.optimize.root_scalar\<close> is not part of the repository. It is a parameter of the
  model: a function of the residual and the two ends of the bracket that returns the two
  fields of its result that the code reads.
\<close>

record root_results =
  converged :: bool
  root :: real

type_synonym root_finder = "(real \<Rightarrow> py_error + pyfloat) \<Rightarrow> real \<Rightarrow> real \<Rightarrow> root_results"

text \<open>The method from the evaluation of the residual at both ends of the bracket on.\<close>

definition solve_in_bracket ::
  "root_finder \<Rightarrow> (real \<Rightarrow> py_error + pyfloat) \<Rightarrow> real \<Rightarrow> real \<Rightarrow> py_error + real" where
  "solve_in_bracket root_scalar f chi_min chi_max =
     (case f chi_min of
        Inl e \<Rightarrow> Inl e
      | Inr f_min \<Rightarrow>
     (case f chi_max of
        Inl e \<Rightarrow> Inl e
      | Inr f_max \<Rightarrow>
          if fgt (fmul f_min f_max) 0
          then Inl (RuntimeError_no_sign_change chi_min f_min chi_max f_max)
          else (let sol = root_scalar f chi_min chi_max in
                if converged sol then Inr (root sol) else Inl RuntimeError_not_converged)))"

definition calculate_conversion ::
  "root_finder \<Rightarrow> reaction \<Rightarrow> real \<Rightarrow> real list \<Rightarrow> real list \<Rightarrow> pyfloat \<Rightarrow> py_error + real" where
  "calculate_conversion root_scalar r pressure reac_init prod_init k_eq =
     (case bracket r reac_init prod_init of
        Inl e \<Rightarrow> Inl e
      | Inr (chi_min, chi_max) \<Rightarrow>
          solve_in_bracket root_scalar (residual r pressure reac_init prod_init k_eq) chi_min chi_max)"

section \<open>The bracket ends as the specification writes them\<close>

definition max_product_ratio :: "reaction \<Rightarrow> real list \<Rightarrow> real" where
  "max_product_ratio r prod_init =
     Max ((\<lambda>i. prod_init ! i / of_int (order (products r ! i))) ` {..<length (products r)})"

definition min_reactant_ratio :: "reaction \<Rightarrow> real list \<Rightarrow> real" where
  "min_reactant_ratio r reac_init =
     Min ((\<lambda>j. reac_init ! j / of_int (order (reactants r ! j))) ` {..<length (reactants r)})"

section \<open>The residual as the specification writes it\<close>


section \<open>Example data\<close>

text \<open>The species and the reaction of main.py.\<close>

definition nitrogen :: component where
  "nitrogen = \<lparr>name = ''N2'', order = 1, cp_coeffs = (0, 0, 0, 0, 0)\<rparr>"

definition hydrogen :: component where
  "hydrogen = \<lparr>name = ''H2'', order = 3, cp_coeffs = (0, 0, 0, 0, 0)\<rparr>"

definition ammonia :: component where
  "ammonia = \<lparr>name = ''NH3'', order = 2, cp_coeffs = (0, 0, 0, 0, 0)\<rparr>"

definition haber_process :: reaction where
  "haber_process = \<lparr>reactants = [nitrogen, hydrogen], products = [ammonia],
     rxn_std_dh = 0, rxn_std_ds = 0, eos = ''ideal'', reac_temp = 600\<rparr>"

text \<open>The same reaction under another equation-of-state tag.\<close>

definition haber_van_der_waals :: reaction where
  "haber_van_der_waals = haber_process\<lparr>eos := ''van der Waals''\<rparr>"

text \<open>The Shomate coefficients and the reaction of example.py.\<close>

definition N2_COEFFS :: "real \<times> real \<times> real \<times> real \<times> real" where
  "N2_COEFFS = (19.50583, 19.88705, -8.598535, 1.369784, 0.527601)"

definition H2_COEFFS :: "real \<times> real \<times> real \<times> real \<times> real" where
  "H2_COEFFS = (33.066178, -11.363417, 11.432816, -2.772874, -0.158558)"

definition NH3_COEFFS :: "real \<times> real \<times> real \<times> real \<times> real" where
  "NH3_COEFFS = (19.99563, 49.77119, -15.37599, 1.921168, 0.189174)"

definition haber_example :: reaction where
  "haber_example = \<lparr>
     reactants = [\<lparr>name = ''N2'', order = 1, cp_coeffs = N2_COEFFS\<rparr>,
                  \<lparr>name = ''H2'', order = 3, cp_coeffs = H2_COEFFS\<rparr>],
     products = [\<lparr>name = ''NH3'', order = 2, cp_coeffs = NH3_COEFFS\<rparr>],
     rxn_std_dh = -92000, rxn_std_ds = -199, eos = ''ideal'', reac_temp = 500\<rparr>"

text \<open>A reaction with one reactant and one product: N2O4 giving 2 NO2.\<close>

definition dissociation :: reaction where
  "dissociation = \<lparr>
     reactants = [\<lparr>name = ''N2O4'', order = 1, cp_coeffs = (0, 0, 0, 0, 0)\<rparr>],
     products = [\<lparr>name = ''NO2'', order = 2, cp_coeffs = (0, 0, 0, 0, 0)\<rparr>],
     rxn_std_dh = 0, rxn_std_ds = 0, eos = ''ideal'', reac_temp = 300\<rparr>"

text \<open>A reaction without products; its \<^verbatim>\<open>prod_init\<close> is the empty list.\<close>

definition no_products :: reaction where
  "no_products = \<lparr>reactants = [nitrogen], products = [],
     rxn_std_dh = 0, rxn_std_ds = 0, eos = ''ideal'', reac_temp = 600\<rparr>"


text \<open>
  A root finder for the examples: it reports the midpoint of the two ends it is given as
  the converged root, in whatever order the ends come.
\<close>

definition midpoint_finder :: root_finder where
  "midpoint_finder f a b = \<lparr>converged = True, root = (a + b) / 2\<rparr>"

section \<open>Properties of the bracket\<close>

lemma foldl_max_Max:
  "foldl (\<lambda>m y. if y > m then y else m) x xs = Max (set (x # xs))"
proof (induction xs arbitrary: x)
  case Nil
  then show ?case by simp
next
  case (Cons a xs)
  have step: "(if a > x then a else x) = max x a" by (auto simp: max_def)
  have "foldl (\<lambda>m y. if y > m then y else m) x (a # xs) = Max (set (max x a # xs))"
    using Cons.IH [of "max x a"] by (simp only: foldl_Cons step)
  also have "\<dots> = Max (set (x # a # xs))"
  proof (cases "xs = []")
    case True
    then show ?thesis by (simp add: max.commute)
  next
    case False
    then show ?thesis by (simp add: max.assoc)
  qed
  finally show ?case .
qed

lemma foldl_min_Min:
  "foldl (\<lambda>m y. if y < m then y else m) x xs = Min (set (x # xs))"
proof (induction xs arbitrary: x)
  case Nil
  then show ?case by simp
next
  case (Cons a xs)
  have step: "(if a < x then a else x) = min x a" by (auto simp: min_def)
  have "foldl (\<lambda>m y. if y < m then y else m) x (a # xs) = Min (set (min x a # xs))"
    using Cons.IH [of "min x a"] by (simp only: foldl_Cons step)
  also have "\<dots> = Min (set (x # a # xs))"
  proof (cases "xs = []")
    case True
    then show ?thesis by (simp add: min.commute)
  next
    case False
    then show ?thesis by (simp add: min.assoc)
  qed
  finally show ?case .
qed

lemma py_max_Max: "xs \<noteq> [] \<Longrightarrow> py_max xs = Inr (Max (set xs))"
  by (cases xs) (simp_all only: py_max.simps foldl_max_Max, simp)

lemma py_min_Min: "xs \<noteq> [] \<Longrightarrow> py_min xs = Inr (Min (set xs))"
  by (cases xs) (simp_all only: py_min.simps foldl_min_Min, simp)

lemma ratios_ok:
  "\<forall>p \<in> set zs. order (fst p) \<noteq> 0 \<Longrightarrow>
     ratios zs = Inr (map (\<lambda>p. snd p / of_int (order (fst p))) zs)"
  by (induction zs rule: ratios.induct) (auto simp: py_div_def)

lemma zip_ratio_set:
  "length ns = length cs \<Longrightarrow>
   set (map (\<lambda>p. snd p / of_int (order (fst p))) (zip cs ns))
     = (\<lambda>i. ns ! i / real_of_int (order (cs ! i))) ` {..<length cs}"
  by (force simp: set_zip image_iff)

lemma max_ratio_zip:
  assumes "cs \<noteq> []" "length ns = length cs" "\<forall>c \<in> set cs. order c \<noteq> 0"
  shows "(case ratios (zip cs ns) of Inl e \<Rightarrow> Inl e | Inr qs \<Rightarrow> py_max qs)
     = Inr (Max ((\<lambda>i. ns ! i / of_int (order (cs ! i))) ` {..<length cs}))"
proof -
  let ?qs = "map (\<lambda>p. snd p / of_int (order (fst p))) (zip cs ns)"
  have "\<forall>p \<in> set (zip cs ns). order (fst p) \<noteq> 0"
    using assms(3) by (auto dest: set_zip_leftD)
  then have r: "ratios (zip cs ns) = Inr ?qs" by (rule ratios_ok)
  have ne: "?qs \<noteq> []" using assms(1,2) by (cases cs; cases ns) auto
  show ?thesis
    by (simp only: r sum.case py_max_Max [OF ne] zip_ratio_set [OF assms(2)])
qed

lemma min_ratio_zip:
  assumes "cs \<noteq> []" "length ns = length cs" "\<forall>c \<in> set cs. order c \<noteq> 0"
  shows "(case ratios (zip cs ns) of Inl e \<Rightarrow> Inl e | Inr qs \<Rightarrow> py_min qs)
     = Inr (Min ((\<lambda>i. ns ! i / of_int (order (cs ! i))) ` {..<length cs}))"
proof -
  let ?qs = "map (\<lambda>p. snd p / of_int (order (fst p))) (zip cs ns)"
  have "\<forall>p \<in> set (zip cs ns). order (fst p) \<noteq> 0"
    using assms(3) by (auto dest: set_zip_leftD)
  then have r: "ratios (zip cs ns) = Inr ?qs" by (rule ratios_ok)
  have ne: "?qs \<noteq> []" using assms(1,2) by (cases cs; cases ns) auto
  show ?thesis
    by (simp only: r sum.case py_min_Min [OF ne] zip_ratio_set [OF assms(2)])
qed

lemma max_product_ratio_haber: "max_product_ratio haber_process [0] = 0"
  by (simp add: max_product_ratio_def haber_process_def lessThan_Suc)

lemma min_reactant_ratio_haber: "min_reactant_ratio haber_process [100, 300] = 100"
  by (simp add: min_reactant_ratio_def haber_process_def nitrogen_def hydrogen_def
      lessThan_Suc numeral_2_eq_2)

lemma bracket_value:
  assumes "products r \<noteq> []" "reactants r \<noteq> []"
    and "length prod_init = length (products r)" "length reac_init = length (reactants r)"
    and "\<forall>c \<in> set (products r). order c \<noteq> 0" "\<forall>c \<in> set (reactants r). order c \<noteq> 0"
  shows "bracket r reac_init prod_init =
           Inr (- max_product_ratio r prod_init + 1 / 100000,
                min_reactant_ratio r reac_init - 1 / 100000)"
proof -
  have hi: "(case ratios (zip (products r) prod_init) of Inl e \<Rightarrow> Inl e | Inr qs \<Rightarrow> py_max qs)
           = Inr (max_product_ratio r prod_init)"
    using max_ratio_zip [OF assms(1,3,5)] by (simp add: max_product_ratio_def)
  have lo: "(case ratios (zip (reactants r) reac_init) of Inl e \<Rightarrow> Inl e | Inr qs \<Rightarrow> py_min qs)
           = Inr (min_reactant_ratio r reac_init)"
    using min_ratio_zip [OF assms(2,4,6)] by (simp add: min_reactant_ratio_def)
  show ?thesis
    using hi lo by (auto simp: bracket_def epsilon_def split: sum.splits)
qed

text \<open>
  Claim C1. For a reaction with at least one reactant and one product, species of nonzero
  order and initial-moles sequences of the lengths of the species lists, the bracket of
  \<^verbatim>\<open>calculate_conversion\<close> is \<open>chi_min = - (maximum over the products of prod_init[i] /
  order_i) + 1e-5\<close> and \<open>chi_max = (minimum over the reactants of reac_init[j] / order_j)
  - 1e-5\<close>: the margin moves both ends strictly inwards.
\<close>

theorem bracket_narrowed:
  assumes "products r \<noteq> []" "reactants r \<noteq> []"
    and "length prod_init = length (products r)" "length reac_init = length (reactants r)"
    and "\<forall>c \<in> set (products r). order c \<noteq> 0" "\<forall>c \<in> set (reactants r). order c \<noteq> 0"
  shows "bracket r reac_init prod_init =
           Inr (- max_product_ratio r prod_init + 1 / 100000,
                min_reactant_ratio r reac_init - 1 / 100000)
         \<and> - max_product_ratio r prod_init < - max_product_ratio r prod_init + 1 / 100000
         \<and> min_reactant_ratio r reac_init - 1 / 100000 < min_reactant_ratio r reac_init"
  using bracket_value [OF assms] by simp

theorem bracket_narrowed_witness:
  "bracket haber_process [100, 300] [0] = Inr (1 / 100000, 100 - 1 / 100000)
   \<and> max_product_ratio haber_process [0] = 0
   \<and> min_reactant_ratio haber_process [100, 300] = 100"
  using bracket_narrowed [of haber_process "[0]" "[100, 300]"]
  by (simp add: max_product_ratio_haber min_reactant_ratio_haber)
    (simp add: haber_process_def nitrogen_def hydrogen_def ammonia_def)

lemma ratios_fail:
  "\<exists>p \<in> set zs. order (fst p) = 0 \<Longrightarrow> ratios zs = Inl ZeroDivisionError"
proof (induction zs rule: ratios.induct)
  case 1
  then show ?case by simp
next
  case (2 c n0 rest)
  show ?case
  proof (cases "order c = 0")
    case True
    then show ?thesis by (simp add: py_div_def)
  next
    case False
    with 2 have "ratios rest = Inl ZeroDivisionError" by (auto simp: py_div_def)
    with False show ?thesis by (simp add: py_div_def)
  qed
qed

lemmas haber_defs = haber_process_def nitrogen_def hydrogen_def ammonia_def

lemmas py_defs = py_index_def py_pow_def py_div_def

lemma haber_bracket: "bracket haber_process [100, 300] [0] = Inr (1 / 100000, 100 - 1 / 100000)"
  by (simp add: bracket_def epsilon_def haber_defs py_div_def)

text \<open>
  Claim C9. The two copies of \<^verbatim>\<open>calculate_conversion\<close> differ in the sign of the margin
  \<open>1e-5\<close>. On the same reaction and initial moles the top-level copy raises what the
  package copy raises, and where the package copy computes \<open>(chi_min, chi_max)\<close> the
  top-level copy computes \<open>(chi_min - 2e-5, chi_max + 2e-5)\<close>. Measured from the largest
  product ratio and the smallest reactant ratio, the top-level copy widens the bracket by
  \<open>1e-5\<close> at each end and the package copy narrows it by \<open>1e-5\<close>.
\<close>

theorem legacy_bracket_wider:
  "legacy_bracket r reac_init prod_init =
     (case bracket r reac_init prod_init of
        Inl e \<Rightarrow> Inl e
      | Inr (chi_min, chi_max) \<Rightarrow> Inr (chi_min - 2 * (1 / 100000), chi_max + 2 * (1 / 100000)))
   \<and> (products r \<noteq> [] \<and> reactants r \<noteq> []
        \<and> length prod_init = length (products r) \<and> length reac_init = length (reactants r)
        \<and> (\<forall>c \<in> set (products r). order c \<noteq> 0) \<and> (\<forall>c \<in> set (reactants r). order c \<noteq> 0)
      \<longrightarrow> legacy_bracket r reac_init prod_init =
            Inr (- max_product_ratio r prod_init - 1 / 100000,
                 min_reactant_ratio r reac_init + 1 / 100000)
          \<and> bracket r reac_init prod_init =
            Inr (- max_product_ratio r prod_init + 1 / 100000,
                 min_reactant_ratio r reac_init - 1 / 100000))"
proof -
  have eq: "legacy_bracket r reac_init prod_init =
     (case bracket r reac_init prod_init of
        Inl e \<Rightarrow> Inl e
      | Inr (chi_min, chi_max) \<Rightarrow> Inr (chi_min - 2 * (1 / 100000), chi_max + 2 * (1 / 100000)))"
    by (simp add: legacy_bracket_def bracket_def epsilon_def split: sum.splits)
  show ?thesis
  proof (intro conjI impI)
    show "legacy_bracket r reac_init prod_init =
     (case bracket r reac_init prod_init of
        Inl e \<Rightarrow> Inl e
      | Inr (chi_min, chi_max) \<Rightarrow> Inr (chi_min - 2 * (1 / 100000), chi_max + 2 * (1 / 100000)))"
      by (rule eq)
  next
    assume h: "products r \<noteq> [] \<and> reactants r \<noteq> []
        \<and> length prod_init = length (products r) \<and> length reac_init = length (reactants r)
        \<and> (\<forall>c \<in> set (products r). order c \<noteq> 0) \<and> (\<forall>c \<in> set (reactants r). order c \<noteq> 0)"
    then have b: "bracket r reac_init prod_init =
            Inr (- max_product_ratio r prod_init + 1 / 100000,
                 min_reactant_ratio r reac_init - 1 / 100000)"
      by (intro bracket_value) simp_all
    show "legacy_bracket r reac_init prod_init =
            Inr (- max_product_ratio r prod_init - 1 / 100000,
                 min_reactant_ratio r reac_init + 1 / 100000)"
      by (simp add: eq b)
    show "bracket r reac_init prod_init =
            Inr (- max_product_ratio r prod_init + 1 / 100000,
                 min_reactant_ratio r reac_init - 1 / 100000)"
      by (rule b)
  qed
qed

theorem legacy_bracket_wider_witness:
  "bracket haber_process [100, 300] [0] = Inr (1 / 100000, 100 - 1 / 100000)
   \<and> legacy_bracket haber_process [100, 300] [0] = Inr (- (1 / 100000), 100 + 1 / 100000)
   \<and> max_product_ratio haber_process [0] = 0
   \<and> min_reactant_ratio haber_process [100, 300] = 100"
proof -
  have "legacy_bracket haber_process [100, 300] [0] =
          Inr (- max_product_ratio haber_process [0] - 1 / 100000,
               min_reactant_ratio haber_process [100, 300] + 1 / 100000)"
    using legacy_bracket_wider [of haber_process "[100, 300]" "[0]"]
    by (simp add: haber_defs)
  then show ?thesis
    by (simp add: haber_bracket max_product_ratio_haber min_reactant_ratio_haber)
qed

section \<open>Properties of the residual and of the solver\<close>



lemma haber_q1:
  "reaction_equation haber_process 1 100 [100, 300] [0] = Inr (39601 / 1621005766875)"
  by (simp add: reaction_equation_def haber_defs py_defs)

lemma haber_q100:
  "reaction_equation haber_process 100 100 [100, 300] [0] = Inl ZeroDivisionError"
  by (simp add: reaction_equation_def haber_defs py_defs)



text \<open>
  Claim C4. The inner function \<^verbatim>\<open>residual\<close> returns \<open>Q(chi) - K\<close> when the quotient is
  evaluated and the difference is finite; it returns \<open>1e10\<close> when evaluating the quotient
  raises, and when the difference is not finite. For every \<open>chi\<close> it returns a finite
  number and raises nothing.
\<close>

theorem residual_total:
  "(\<forall>q k. reaction_equation r chi pressure reac_init prod_init = Inr q \<and> k_eq = Finite k
       \<longrightarrow> residual r pressure reac_init prod_init k_eq chi = Inr (Finite (q - k)))
   \<and> (\<forall>e. reaction_equation r chi pressure reac_init prod_init = Inl e
       \<longrightarrow> residual r pressure reac_init prod_init k_eq chi = Inr (Finite 10000000000))
   \<and> (\<not> isfinite k_eq
       \<longrightarrow> residual r pressure reac_init prod_init k_eq chi = Inr (Finite 10000000000))
   \<and> (\<exists>x. residual r pressure reac_init prod_init k_eq chi = Inr (Finite x))"
  by (cases k_eq) (auto simp: residual_def split: sum.splits)

theorem residual_total_witness:
  "reaction_equation haber_process 1 100 [100, 300] [0] = Inr (39601 / 1621005766875)
   \<and> residual haber_process 100 [100, 300] [0] (Finite (1 / 100000)) 1
       = Inr (Finite (39601 / 1621005766875 - 1 / 100000))
   \<and> reaction_equation haber_process 100 100 [100, 300] [0] = Inl ZeroDivisionError
   \<and> residual haber_process 100 [100, 300] [0] (Finite (1 / 100000)) 100
       = Inr (Finite 10000000000)
   \<and> residual haber_process 100 [100, 300] [0] NaN 1 = Inr (Finite 10000000000)"
proof -
  have "residual haber_process 100 [100, 300] [0] (Finite (1 / 100000)) 1
       = Inr (Finite (39601 / 1621005766875 - 1 / 100000))"
    using residual_total [of haber_process 1 100 "[100, 300]" "[0]" "Finite (1 / 100000)"]
      haber_q1 by blast
  moreover have "residual haber_process 100 [100, 300] [0] (Finite (1 / 100000)) 100
       = Inr (Finite 10000000000)"
    using residual_total [of haber_process 100 100 "[100, 300]" "[0]" "Finite (1 / 100000)"]
      haber_q100 by blast
  moreover have "residual haber_process 100 [100, 300] [0] NaN 1 = Inr (Finite 10000000000)"
    using residual_total [of haber_process 1 100 "[100, 300]" "[0]" NaN] by simp
  ultimately show ?thesis by (simp add: haber_q1 haber_q100)
qed







text \<open>
  Claim C10. When the product list or the reactant list is empty (the initial-moles
  sequences having the lengths of the species lists), \<^verbatim>\<open>calculate_conversion\<close> raises while
  it computes the ends of the bracket, whatever the pressure, the equilibrium constant
  and the root finder: \<^verbatim>\<open>ValueError\<close> from \<^verbatim>\<open>max\<close> or \<^verbatim>\<open>min\<close> of an empty sequence,
  unless a product of order zero has raised \<^verbatim>\<open>ZeroDivisionError\<close> before.
\<close>

theorem conversion_empty_side:
  assumes "products r = [] \<or> reactants r = []"
    and "length prod_init = length (products r)" "length reac_init = length (reactants r)"
  shows "bracket r reac_init prod_init
           = Inl (if \<exists>c \<in> set (products r). order c = 0 then ZeroDivisionError else ValueError)
     \<and> calculate_conversion S r pressure reac_init prod_init k_eq
           = Inl (if \<exists>c \<in> set (products r). order c = 0 then ZeroDivisionError else ValueError)"
proof -
  have b: "bracket r reac_init prod_init
           = Inl (if \<exists>c \<in> set (products r). order c = 0 then ZeroDivisionError else ValueError)"
  proof (cases "products r = []")
    case True
    then show ?thesis by (simp add: bracket_def)
  next
    case False
    with assms(1) have re: "reactants r = []" by simp
    show ?thesis
    proof (cases "\<exists>c \<in> set (products r). order c = 0")
      case True
      then have "\<exists>p \<in> set (zip (products r) prod_init). order (fst p) = 0"
        using assms(2) by (metis fst_conv in_set_impl_in_set_zip1)
      then have "ratios (zip (products r) prod_init) = Inl ZeroDivisionError"
        by (rule ratios_fail)
      with True show ?thesis by (simp add: bracket_def)
    next
      case nz: False
      then have "(case ratios (zip (products r) prod_init) of Inl e \<Rightarrow> Inl e | Inr qs \<Rightarrow> py_max qs)
          = Inr (max_product_ratio r prod_init)"
        using max_ratio_zip [OF False assms(2)] by (simp add: max_product_ratio_def)
      with nz show ?thesis by (auto simp: bracket_def re split: sum.splits)
    qed
  qed
  then show ?thesis by (simp add: calculate_conversion_def)
qed

theorem conversion_empty_side_witness:
  "bracket no_products [100] [] = Inl ValueError
   \<and> calculate_conversion midpoint_finder no_products 100 [100] [] (Finite (1 / 100000))
       = Inl ValueError"
  using conversion_empty_side [of no_products "[]" "[100]" midpoint_finder 100 "Finite (1 / 100000)"]
  by (simp add: no_products_def)

section \<open>Properties of the Gibbs free energy and the equilibrium constant\<close>

lemma enthalpy_change_same: "T \<noteq> 0 \<Longrightarrow> enthalpy_change c T T = Inr 0"
  by (cases "cp_coeffs c") (simp add: enthalpy_change_def py_div_def)

lemma entropy_change_same: "0 < T \<Longrightarrow> entropy_change c T T = Inr (Finite 0)"
  by (cases "cp_coeffs c") (simp add: entropy_change_def py_div_def np_log_def)

lemma hess_loop_same: "0 < T \<Longrightarrow> hess_loop T T cs (h, Finite s) = Inr (h, Finite s)"
  by (induction cs) (simp_all add: enthalpy_change_same entropy_change_same)

text \<open>
  Claim C6. When the reaction temperature equals the reference temperature and both are
  strictly positive, \<^verbatim>\<open>calculate_rxn_gibbs\<close> at that reference temperature returns exactly
  \<open>rxn_std_dh - reac_temp * rxn_std_ds\<close>, whatever the species lists and their coefficients.
\<close>

theorem gibbs_at_reference:
  assumes "reac_temp r = std_temp" "0 < std_temp"
  shows "calculate_rxn_gibbs r std_temp = Inr (Finite (rxn_std_dh r - reac_temp r * rxn_std_ds r))"
  using assms by (simp add: calculate_rxn_gibbs_def hess_loop_same)

theorem gibbs_at_reference_witness:
  "reac_temp (haber_example\<lparr>reac_temp := 298\<rparr>) = 298
   \<and> calculate_rxn_gibbs (haber_example\<lparr>reac_temp := 298\<rparr>) 298 = Inr (Finite (- 32698))"
  using gibbs_at_reference [of "haber_example\<lparr>reac_temp := 298\<rparr>" 298]
  by (simp add: haber_example_def)

text \<open>
  Claim C7. For a nonzero reaction temperature (and a nonzero gas constant),
  \<^verbatim>\<open>calculate_rxn_k\<close> returns \<open>exp (- G / (R * reac_temp))\<close> for the value \<open>G\<close> that
  \<^verbatim>\<open>calculate_rxn_gibbs\<close> returns at the default reference temperature, and raises what
  \<^verbatim>\<open>calculate_rxn_gibbs\<close> raises; the result is strictly positive whenever \<open>G\<close> is finite.
\<close>

theorem equilibrium_constant:
  assumes "reac_temp r \<noteq> 0" "R \<noteq> 0"
  shows "calculate_rxn_k R STD_TEMP r =
           (case calculate_rxn_gibbs r STD_TEMP of
              Inl e \<Rightarrow> Inl e
            | Inr G \<Rightarrow> Inr (case G of Finite g \<Rightarrow> Finite (exp (- g / (R * reac_temp r)))
                                    | NaN \<Rightarrow> NaN))
     \<and> (\<forall>g. calculate_rxn_gibbs r STD_TEMP = Inr (Finite g)
          \<longrightarrow> (\<exists>k. calculate_rxn_k R STD_TEMP r = Inr (Finite k) \<and> 0 < k))"
  using assms by (auto simp: calculate_rxn_k_def split: sum.splits pyfloat.splits)

lemma haber_gibbs: "calculate_rxn_gibbs haber_process (5963 / 20) = Inr (Finite 0)"
  by (simp add: calculate_rxn_gibbs_def haber_defs enthalpy_change_def entropy_change_def
      py_div_def np_log_def)

theorem equilibrium_constant_witness:
  "reac_temp haber_process = 600
   \<and> calculate_rxn_gibbs haber_process (5963 / 20) = Inr (Finite 0)
   \<and> calculate_rxn_k (8314 / 1000) (5963 / 20) haber_process = Inr (Finite 1)"
  using equilibrium_constant [of haber_process "8314 / 1000" "5963 / 20"]
  by (simp add: haber_gibbs) (simp add: haber_process_def)

lemma reaction_equation_cong:
  assumes "reactants r1 = reactants r2" "products r1 = products r2"
  shows "reaction_equation r1 = reaction_equation r2"
  unfolding reaction_equation_def assms by (intro ext) (rule refl)

lemma residual_cong:
  assumes "reactants r1 = reactants r2" "products r1 = products r2"
  shows "residual r1 = residual r2"
  by (intro ext) (simp add: residual_def reaction_equation_cong [OF assms])

text \<open>
  Claim C8. Two reactions that agree on reactants, products, standard enthalpy and entropy
  change and reaction temperature give the same results and the same exceptions in
  \<^verbatim>\<open>calculate_rxn_gibbs\<close>, \<^verbatim>\<open>calculate_rxn_k\<close>, \<^verbatim>\<open>reaction_equation\<close> and
  \<^verbatim>\<open>calculate_conversion\<close> on the same arguments, whatever their \<^verbatim>\<open>eos\<close> strings.
\<close>

theorem eos_ignored:
  assumes "reactants r1 = reactants r2" "products r1 = products r2"
    and "rxn_std_dh r1 = rxn_std_dh r2" "rxn_std_ds r1 = rxn_std_ds r2"
    and "reac_temp r1 = reac_temp r2"
  shows "calculate_rxn_gibbs r1 std_temp = calculate_rxn_gibbs r2 std_temp
     \<and> calculate_rxn_k R STD_TEMP r1 = calculate_rxn_k R STD_TEMP r2
     \<and> reaction_equation r1 chi pressure reac_init prod_init
         = reaction_equation r2 chi pressure reac_init prod_init
     \<and> calculate_conversion S r1 pressure reac_init prod_init k_eq
         = calculate_conversion S r2 pressure reac_init prod_init k_eq"
proof -
  have g: "calculate_rxn_gibbs r1 T = calculate_rxn_gibbs r2 T" for T
    unfolding calculate_rxn_gibbs_def assms by (rule refl)
  have b: "bracket r1 reac_init prod_init = bracket r2 reac_init prod_init"
    unfolding bracket_def assms by (rule refl)
  have k: "calculate_rxn_k R STD_TEMP r1 = calculate_rxn_k R STD_TEMP r2"
    unfolding calculate_rxn_k_def g assms(5) by (rule refl)
  have c: "calculate_conversion S r1 pressure reac_init prod_init k_eq
         = calculate_conversion S r2 pressure reac_init prod_init k_eq"
    unfolding calculate_conversion_def b residual_cong [OF assms(1,2)] by (rule refl)
  show ?thesis
    by (simp add: g k c reaction_equation_cong [OF assms(1,2)])
qed

theorem eos_ignored_witness:
  "eos haber_process \<noteq> eos haber_van_der_waals
   \<and> calculate_rxn_gibbs haber_process 298 = calculate_rxn_gibbs haber_van_der_waals 298
   \<and> calculate_rxn_k (8314 / 1000) (5963 / 20) haber_process
       = calculate_rxn_k (8314 / 1000) (5963 / 20) haber_van_der_waals
   \<and> reaction_equation haber_process 1 100 [100, 300] [0]
       = reaction_equation haber_van_der_waals 1 100 [100, 300] [0]
   \<and> calculate_conversion midpoint_finder haber_process 100 [100, 300] [0] (Finite (1 / 100000))
       = calculate_conversion midpoint_finder haber_van_der_waals 100 [100, 300] [0]
           (Finite (1 / 100000))"
  using eos_ignored [of haber_process haber_van_der_waals 298 "8314 / 1000" "5963 / 20" 1 100
      "[100, 300]" "[0]" midpoint_finder "Finite (1 / 100000)"]
  by (simp add: haber_van_der_waals_def haber_process_def)


section \<open>Properties of the reaction quotient\<close>

lemma products_loop_result:
  assumes "index + length cs \<le> length prod_init"
  shows "products_loop chi prod_init index cs (num, ep, dm) =
    (if \<exists>k < length cs. prod_init ! (index + k) + of_int (order (cs ! k)) * chi = 0
                          \<and> order (cs ! k) < 0
     then Inl ZeroDivisionError
     else Inr (num * (\<Prod>k < length cs.
                        power_int (prod_init ! (index + k) + of_int (order (cs ! k)) * chi)
                                  (order (cs ! k))),
               ep + (\<Sum>k < length cs. prod_init ! (index + k) + of_int (order (cs ! k)) * chi),
               dm + (\<Sum>k < length cs. order (cs ! k))))"
  using assms
proof (induction cs arbitrary: index num ep dm)
  case Nil
  then show ?case by simp
next
  case (Cons c rest)
  then have ix: "index < length prod_init" and le: "Suc index + length rest \<le> length prod_init"
    by simp_all
  let ?t = "prod_init ! index + of_int (order c) * chi"
  show ?case
  proof (cases "?t = 0 \<and> order c < 0")
    case True
    then have "\<exists>k < length (c # rest). prod_init ! (index + k) + of_int (order ((c # rest) ! k)) * chi = 0
                          \<and> order ((c # rest) ! k) < 0"
      by (intro exI [of _ 0]) simp
    moreover have "products_loop chi prod_init index (c # rest) (num, ep, dm) = Inl ZeroDivisionError"
      using True ix by (simp add: py_index_def py_pow_def Let_def)
    ultimately show ?thesis by (simp only: if_True)
  next
    case False
    then have pw: "py_pow ?t (order c) = Inr (power_int ?t (order c))"
      by (auto simp: py_pow_def)
    have step: "products_loop chi prod_init index (c # rest) (num, ep, dm)
        = products_loop chi prod_init (Suc index) rest
            (num * power_int ?t (order c), ep + ?t, dm + order c)"
      by (simp add: py_index_def ix pw Let_def)
    have ex: "(\<exists>k < length (c # rest). prod_init ! (index + k) + of_int (order ((c # rest) ! k)) * chi = 0
                          \<and> order ((c # rest) ! k) < 0)
        \<longleftrightarrow> (\<exists>k < length rest. prod_init ! (Suc index + k) + of_int (order (rest ! k)) * chi = 0
                          \<and> order (rest ! k) < 0)"
      using False by (simp add: Ex_less_Suc2) blast
    have pr: "(\<Prod>k < length (c # rest).
                 power_int (prod_init ! (index + k) + of_int (order ((c # rest) ! k)) * chi)
                           (order ((c # rest) ! k)))
        = power_int ?t (order c)
          * (\<Prod>k < length rest.
                 power_int (prod_init ! (Suc index + k) + of_int (order (rest ! k)) * chi)
                           (order (rest ! k)))"
      by (simp add: prod.lessThan_Suc_shift del: prod.lessThan_Suc)
    have s1: "(\<Sum>k < length (c # rest). prod_init ! (index + k) + of_int (order ((c # rest) ! k)) * chi)
        = ?t + (\<Sum>k < length rest. prod_init ! (Suc index + k) + of_int (order (rest ! k)) * chi)"
      by (simp add: sum.lessThan_Suc_shift del: sum.lessThan_Suc)
    have s2: "(\<Sum>k < length (c # rest). order ((c # rest) ! k))
        = order c + (\<Sum>k < length rest. order (rest ! k))"
      by (simp add: sum.lessThan_Suc_shift del: sum.lessThan_Suc)
    show ?thesis
      unfolding step Cons.IH [OF le] ex pr s1 s2 by (simp only: mult.assoc add.assoc)
  qed
qed

lemma reactants_loop_result:
  assumes "index + length cs \<le> length reac_init"
  shows "reactants_loop chi reac_init index cs (den, er, dm) =
    (if \<exists>k < length cs. reac_init ! (index + k) - of_int (order (cs ! k)) * chi = 0
                          \<and> order (cs ! k) < 0
     then Inl ZeroDivisionError
     else Inr (den * (\<Prod>k < length cs.
                        power_int (reac_init ! (index + k) - of_int (order (cs ! k)) * chi)
                                  (order (cs ! k))),
               er + (\<Sum>k < length cs. reac_init ! (index + k) - of_int (order (cs ! k)) * chi),
               dm - (\<Sum>k < length cs. order (cs ! k))))"
  using assms
proof (induction cs arbitrary: index den er dm)
  case Nil
  then show ?case by simp
next
  case (Cons c rest)
  then have ix: "index < length reac_init" and le: "Suc index + length rest \<le> length reac_init"
    by simp_all
  let ?t = "reac_init ! index - of_int (order c) * chi"
  show ?case
  proof (cases "?t = 0 \<and> order c < 0")
    case True
    then have "\<exists>k < length (c # rest). reac_init ! (index + k) - of_int (order ((c # rest) ! k)) * chi = 0
                          \<and> order ((c # rest) ! k) < 0"
      by (intro exI [of _ 0]) simp
    moreover have "reactants_loop chi reac_init index (c # rest) (den, er, dm) = Inl ZeroDivisionError"
      using True ix by (simp add: py_index_def py_pow_def Let_def)
    ultimately show ?thesis by (simp only: if_True)
  next
    case False
    then have pw: "py_pow ?t (order c) = Inr (power_int ?t (order c))"
      by (auto simp: py_pow_def)
    have step: "reactants_loop chi reac_init index (c # rest) (den, er, dm)
        = reactants_loop chi reac_init (Suc index) rest
            (den * power_int ?t (order c), er + ?t, dm - order c)"
      by (simp add: py_index_def ix pw Let_def)
    have ex: "(\<exists>k < length (c # rest). reac_init ! (index + k) - of_int (order ((c # rest) ! k)) * chi = 0
                          \<and> order ((c # rest) ! k) < 0)
        \<longleftrightarrow> (\<exists>k < length rest. reac_init ! (Suc index + k) - of_int (order (rest ! k)) * chi = 0
                          \<and> order (rest ! k) < 0)"
      using False by (simp add: Ex_less_Suc2) blast
    have pr: "(\<Prod>k < length (c # rest).
                 power_int (reac_init ! (index + k) - of_int (order ((c # rest) ! k)) * chi)
                           (order ((c # rest) ! k)))
        = power_int ?t (order c)
          * (\<Prod>k < length rest.
                 power_int (reac_init ! (Suc index + k) - of_int (order (rest ! k)) * chi)
                           (order (rest ! k)))"
      by (simp add: prod.lessThan_Suc_shift del: prod.lessThan_Suc)
    have s1: "(\<Sum>k < length (c # rest). reac_init ! (index + k) - of_int (order ((c # rest) ! k)) * chi)
        = ?t + (\<Sum>k < length rest. reac_init ! (Suc index + k) - of_int (order (rest ! k)) * chi)"
      by (simp add: sum.lessThan_Suc_shift del: sum.lessThan_Suc)
    have s2: "dm - (\<Sum>k < length (c # rest). order ((c # rest) ! k))
        = dm - order c - (\<Sum>k < length rest. order (rest ! k))"
      by (simp add: sum.lessThan_Suc_shift del: sum.lessThan_Suc)
    show ?thesis
      unfolding step Cons.IH [OF le] ex pr s1 s2 by (simp only: mult.assoc add.assoc)
  qed
qed

text \<open>
  Claim C2. For initial-moles sequences of the lengths of the species lists,
  \<^verbatim>\<open>reaction_equation\<close> returns \<open>(numerator / denominator) * total_moles ^ (- net_mole_change)
  * pressure ^ net_mole_change\<close>, with the numerator the product over the products of
  \<open>(prod_init[i] + order_i * chi) ^ order_i\<close>, the denominator the product over the
  reactants of \<open>(reac_init[j] - order_j * chi) ^ order_j\<close>, the net mole change the sum of
  the product orders minus the sum of the reactant orders, and the total moles the sum of
  all current moles. Where that expression divides by zero the function raises
  \<^verbatim>\<open>ZeroDivisionError\<close>, as the expression does.
\<close>

theorem reaction_equation_formula:
  assumes "length prod_init = length (products r)" "length reac_init = length (reactants r)"
  shows "reaction_equation r chi pressure reac_init prod_init =
           (if zero_division r chi pressure reac_init prod_init
            then Inl ZeroDivisionError
            else Inr (spec_quotient r chi pressure reac_init prod_init))"
proof -
  have lp: "0 + length (products r) \<le> length prod_init"
    and lr: "0 + length (reactants r) \<le> length reac_init"
    using assms by simp_all
  have p: "products_loop chi prod_init 0 (products r) (1, 0, 0) =
      (if \<exists>i < length (products r). current_prod r chi prod_init i = 0 \<and> order (products r ! i) < 0
       then Inl ZeroDivisionError
       else Inr (spec_numerator r chi prod_init,
                 (\<Sum>i < length (products r). current_prod r chi prod_init i),
                 (\<Sum>i < length (products r). order (products r ! i))))"
    unfolding current_prod_def spec_numerator_def
    using products_loop_result [OF lp, of chi 1 0 0] by (simp only: add_0 mult_1)
  have q: "reactants_loop chi reac_init 0 (reactants r) (1, 0, dm) =
      (if \<exists>j < length (reactants r). current_reac r chi reac_init j = 0 \<and> order (reactants r ! j) < 0
       then Inl ZeroDivisionError
       else Inr (spec_denominator r chi reac_init,
                 (\<Sum>j < length (reactants r). current_reac r chi reac_init j),
                 dm - (\<Sum>j < length (reactants r). order (reactants r ! j))))" for dm
    unfolding current_reac_def spec_denominator_def
    using reactants_loop_result [OF lr, of chi 1 0 dm] by (simp only: add_0 mult_1)
  show ?thesis
    unfolding reaction_equation_def p q
    by (auto simp: zero_division_def spec_quotient_def py_pow_def py_div_def
        net_mole_change_def total_moles_def)
qed

lemma haber_spec_q1: "spec_quotient haber_process 1 100 [100, 300] [0] = 39601 / 1621005766875"
  by (simp add: spec_quotient_def spec_numerator_def spec_denominator_def total_moles_def
      net_mole_change_def current_prod_def current_reac_def haber_defs
      lessThan_Suc numeral_2_eq_2 power_int_minus)

lemma haber_no_zero_division: "\<not> zero_division haber_process 1 100 [100, 300] [0]"
  by (simp add: zero_division_def spec_denominator_def total_moles_def
      net_mole_change_def current_prod_def current_reac_def haber_defs
      lessThan_Suc numeral_2_eq_2 Ex_less_Suc)

lemma haber_zero_division: "zero_division haber_process 100 100 [100, 300] [0]"
  by (simp add: zero_division_def spec_denominator_def total_moles_def
      net_mole_change_def current_prod_def current_reac_def haber_defs
      lessThan_Suc numeral_2_eq_2 Ex_less_Suc)

theorem reaction_equation_formula_witness:
  "reaction_equation haber_process 1 100 [100, 300] [0] = Inr (39601 / 1621005766875)
   \<and> spec_quotient haber_process 1 100 [100, 300] [0] = 39601 / 1621005766875
   \<and> zero_division haber_process 100 100 [100, 300] [0]
   \<and> reaction_equation haber_process 100 100 [100, 300] [0] = Inl ZeroDivisionError"
  using reaction_equation_formula [of "[0]" haber_process "[100, 300]" 1 100]
    reaction_equation_formula [of "[0]" haber_process "[100, 300]" 100 100]
  by (simp add: haber_spec_q1 haber_no_zero_division haber_zero_division)
    (simp add: haber_defs)

lemma single_quotient:
  assumes "reactants r = [cr]" "products r = [cp]"
    and u: "0 < b + of_int (order cp) * chi" and v: "0 < a - of_int (order cr) * chi"
    and p: "0 < pressure"
  shows "reaction_equation r chi pressure [a] [b] =
     Inr (power_int ((b + of_int (order cp) * chi)
                       / ((b + of_int (order cp) * chi) + (a - of_int (order cr) * chi)))
                    (order cp)
          * power_int (((b + of_int (order cp) * chi) + (a - of_int (order cr) * chi))
                       / (a - of_int (order cr) * chi))
                    (order cr)
          * power_int pressure (order cp - order cr))"
proof -
  let ?u = "b + of_int (order cp) * chi" and ?v = "a - of_int (order cr) * chi"
  let ?n = "order cp" and ?m = "order cr"
  have t: "?u + ?v \<noteq> 0" using u v by linarith
  have vm: "power_int ?v ?m \<noteq> 0" using v by simp
  have tn: "power_int (?u + ?v) ?n \<noteq> 0" using t by simp
  have "reaction_equation r chi pressure [a] [b] =
      Inr (power_int ?u ?n / power_int ?v ?m * power_int (?u + ?v) (- (?n - ?m))
           * power_int pressure (?n - ?m))"
    using u v p t vm
    by (simp add: reaction_equation_def assms(1,2) py_index_def py_pow_def py_div_def Let_def)
  also have "power_int (?u + ?v) (- (?n - ?m)) = power_int (?u + ?v) ?m / power_int (?u + ?v) ?n"
    using power_int_diff [of "?u + ?v" ?m ?n] t by simp
  also have "power_int ?u ?n / power_int ?v ?m * (power_int (?u + ?v) ?m / power_int (?u + ?v) ?n)
      = power_int (?u / (?u + ?v)) ?n * power_int ((?u + ?v) / ?v) ?m"
    by (simp add: power_int_divide_distrib)
  finally show ?thesis .
qed

lemma ratio_mono:
  fixes u1 u2 v1 v2 :: real
  assumes "0 < u1" "u1 < u2" "0 < v2" "v2 < v1"
  shows "u1 / (u1 + v1) < u2 / (u2 + v2)" "(u1 + v1) / v1 < (u2 + v2) / v2"
proof -
  have c: "u1 * v2 < u2 * v1"
    using assms by (intro mult_strict_mono) simp_all
  have "u1 * (u2 + v2) < u2 * (u1 + v1)"
    using c by (simp add: algebra_simps)
  then show "u1 / (u1 + v1) < u2 / (u2 + v2)"
    using assms by (simp add: divide_simps algebra_simps)
  have "(u1 + v1) * v2 < (u2 + v2) * v1"
    using c by (simp add: algebra_simps)
  then show "(u1 + v1) / v1 < (u2 + v2) / v2"
    using assms by (simp add: divide_simps algebra_simps)
qed

text \<open>
  Claim C5. For a reaction with one reactant and one product of positive orders, a
  positive pressure and non-negative initial moles, the quotient is strictly increasing
  in \<open>chi\<close> where both current-moles terms are strictly positive: at two such extents
  \<open>chi1 < chi2\<close> the function returns \<open>q1 < q2\<close>.
\<close>

theorem single_species_quotient_increasing:
  assumes "reactants r = [cr]" "products r = [cp]"
    and "0 < order cr" "0 < order cp" "0 < pressure" "0 \<le> a" "0 \<le> b"
    and "0 < b + of_int (order cp) * chi1" "0 < a - of_int (order cr) * chi1"
    and "0 < b + of_int (order cp) * chi2" "0 < a - of_int (order cr) * chi2"
    and "chi1 < chi2"
  shows "\<exists>q1 q2. reaction_equation r chi1 pressure [a] [b] = Inr q1
               \<and> reaction_equation r chi2 pressure [a] [b] = Inr q2 \<and> q1 < q2"
proof -
  let ?n = "order cp" and ?m = "order cr"
  let ?u1 = "b + of_int ?n * chi1" and ?v1 = "a - of_int ?m * chi1"
  let ?u2 = "b + of_int ?n * chi2" and ?v2 = "a - of_int ?m * chi2"
  let ?A1 = "?u1 / (?u1 + ?v1)" and ?A2 = "?u2 / (?u2 + ?v2)"
  let ?B1 = "(?u1 + ?v1) / ?v1" and ?B2 = "(?u2 + ?v2) / ?v2"
  let ?c = "power_int pressure (?n - ?m)"
  have uu: "?u1 < ?u2" using assms(4,12) by simp
  have vv: "?v2 < ?v1" using assms(3,12) by simp
  have A: "?A1 < ?A2" and B: "?B1 < ?B2"
    using ratio_mono [OF assms(8) uu assms(11) vv] by simp_all
  have A0: "0 \<le> ?A1" and B0: "0 \<le> ?B1" using assms(8,9) by simp_all
  have An: "power_int ?A1 ?n < power_int ?A2 ?n"
    using A A0 assms(4) by (rule power_int_strict_mono)
  have Bm: "power_int ?B1 ?m < power_int ?B2 ?m"
    using B B0 assms(3) by (rule power_int_strict_mono)
  have A2pos: "0 < power_int ?A2 ?n" using assms(10,11) by simp
  have B1nn: "0 \<le> power_int ?B1 ?m" using B0 by simp
  have "power_int ?A1 ?n * power_int ?B1 ?m < power_int ?A2 ?n * power_int ?B2 ?m"
    using An Bm A2pos B1nn by (rule mult_strict_mono)
  moreover have "0 < ?c" using assms(5) by simp
  ultimately have lt: "power_int ?A1 ?n * power_int ?B1 ?m * ?c
      < power_int ?A2 ?n * power_int ?B2 ?m * ?c"
    by (rule mult_strict_right_mono)
  show ?thesis
    using single_quotient [OF assms(1,2,8,9,5)] single_quotient [OF assms(1,2,10,11,5)] lt
    by blast
qed

lemma dissociation_q:
  "reaction_equation dissociation (1 / 4) 1 [1] [0] = Inr (4 / 15)"
  "reaction_equation dissociation (1 / 2) 1 [1] [0] = Inr (4 / 3)"
  by (simp_all add: reaction_equation_def dissociation_def py_defs Let_def power_divide)

theorem single_species_quotient_increasing_witness:
  "reaction_equation dissociation (1 / 4) 1 [1] [0] = Inr (4 / 15)
   \<and> reaction_equation dissociation (1 / 2) 1 [1] [0] = Inr (4 / 3)
   \<and> (4 / 15 :: real) < 4 / 3"
proof -
  have "\<exists>q1 q2. reaction_equation dissociation (1 / 4) 1 [1] [0] = Inr q1
               \<and> reaction_equation dissociation (1 / 2) 1 [1] [0] = Inr q2 \<and> q1 < q2"
    by (rule single_species_quotient_increasing [of dissociation
          "\<lparr>name = ''N2O4'', order = 1, cp_coeffs = (0, 0, 0, 0, 0)\<rparr>"
          "\<lparr>name = ''NO2'', order = 2, cp_coeffs = (0, 0, 0, 0, 0)\<rparr>"])
      (simp_all add: dissociation_def)
  then show ?thesis by (simp add: dissociation_q)
qed

end
